theory Spec2Isabelle
  imports Complex_Main "HOL-Library.Word"
begin

section \<open>vtkImageReslice: a shallow embedding of \<^verbatim>\<open>Imaging/Core/vtkImageReslice.cxx\<close>\<close>

text \<open>
  Conventions of the embedding.
  \<^item> C++ \<^verbatim>\<open>int\<close> values that are only compared, copied or offset by small constants
    are HOL integers; typed output scalars are machine words of the width of the type.
  \<^item> C++ \<^verbatim>\<open>double\<close> values (\<^verbatim>\<open>vtkImageResliceFloatingPointType\<close>) are HOL reals:
    the arithmetic is exact, and NaN, infinities and rounding error are outside the model.
    Where a theorem below shows the code departing from a claim at a concrete input, the
    values the code computes there are small integers and halves, on which IEEE double
    arithmetic is exact as well.
  \<^item> A nullable pointer field is an \<open>option\<close>.
  \<^item> Helpers that live in other files of VTK (\<^verbatim>\<open>vtkInterpolationMath::Round\<close>,
    \<^verbatim>\<open>vtkMatrix3x3::Invert\<close>, the interpolator) are parameters of the functions
    that call them, unless stated otherwise.
\<close>

subsection \<open>Modification time (\<^verbatim>\<open>vtkImageReslice::GetMTime\<close>, lines 542-570)\<close>

type_synonym vtkMTimeType = "64 word"

text \<open>What \<^verbatim>\<open>GetMTime\<close> reads of a \<^verbatim>\<open>vtkAbstractTransform\<close>: its own time stamp, whether
  \<^verbatim>\<open>IsA("vtkHomogeneousTransform")\<close> holds, and the time stamp of the matrix returned by
  \<^verbatim>\<open>GetMatrix()\<close> (only read for a homogeneous transform).\<close>

record vtkAbstractTransform =
  TransformMTime :: vtkMTimeType
  IsHomogeneous :: bool
  MatrixMTime :: vtkMTimeType

text \<open>The fields of the filter that hold time-stamped objects. \<open>SuperMTime\<close> is the
  value of \<^verbatim>\<open>this->Superclass::GetMTime()\<close>; the object fields carry the time stamp of the
  object they point to, \<open>None\<close> for \<^verbatim>\<open>nullptr\<close>.\<close>

record reslice_objects =
  SuperMTime :: vtkMTimeType
  ResliceTransform :: "vtkAbstractTransform option"
  ResliceAxes :: "vtkMTimeType option"
  Interpolator :: "vtkMTimeType option"
  InformationInput :: "vtkMTimeType option"

definition later :: "vtkMTimeType \<Rightarrow> vtkMTimeType \<Rightarrow> vtkMTimeType" where
  \<comment> \<open>\<^verbatim>\<open>mTime = (time > mTime ? time : mTime)\<close>\<close>
  "later time mTime = (if time > mTime then time else mTime)"

definition GetMTime :: "reslice_objects \<Rightarrow> vtkMTimeType" where
  "GetMTime self =
    (let mTime = SuperMTime self;
         mTime = (case ResliceTransform self of
                    None \<Rightarrow> mTime
                  | Some t \<Rightarrow>
                      (let mTime = later (TransformMTime t) mTime
                       in if IsHomogeneous t then later (MatrixMTime t) mTime else mTime));
         mTime = (case ResliceAxes self of None \<Rightarrow> mTime | Some time \<Rightarrow> later time mTime);
         mTime = (case Interpolator self of None \<Rightarrow> mTime | Some time \<Rightarrow> later time mTime)
     in mTime)"

text \<open>The time stamps the function consults, as a set.\<close>

definition transform_times :: "vtkAbstractTransform option \<Rightarrow> vtkMTimeType set" where
  "transform_times tr =
    (case tr of
       None \<Rightarrow> {}
     | Some t \<Rightarrow> insert (TransformMTime t) (if IsHomogeneous t then {MatrixMTime t} else {}))"

definition consulted_times :: "reslice_objects \<Rightarrow> vtkMTimeType set" where
  "consulted_times self =
     insert (SuperMTime self)
       (transform_times (ResliceTransform self) \<union> set_option (ResliceAxes self)
          \<union> set_option (Interpolator self))"

text \<open>The effective time as the specification words it: the information input counts too.\<close>

definition spec_effective_mtime :: "reslice_objects \<Rightarrow> vtkMTimeType" where
  "spec_effective_mtime self =
     Max (consulted_times self \<union> set_option (InformationInput self))"

definition mtime_example :: reslice_objects where
  "mtime_example = \<lparr>SuperMTime = 5,
     ResliceTransform = Some \<lparr>TransformMTime = 7, IsHomogeneous = True, MatrixMTime = 9\<rparr>,
     ResliceAxes = Some 3, Interpolator = None, InformationInput = None\<rparr>"

definition mtime_info_example :: reslice_objects where
  "mtime_info_example = \<lparr>SuperMTime = 1, ResliceTransform = None,
     ResliceAxes = None, Interpolator = None, InformationInput = Some 10\<rparr>"

subsection \<open>The thread-splitting guard of \<^verbatim>\<open>vtkImageReslice::RequestData\<close> (lines 3210-3236)\<close>

datatype SplitModeEnum = SLAB | BEAM | BLOCK

text \<open>The members of the filter and of its superclass \<^verbatim>\<open>vtkThreadedImageAlgorithm\<close> that
  the guard touches, and the log of \<^verbatim>\<open>vtkWarningMacro\<close> messages.\<close>

record split_state =
  GenerateStencilOutput :: int
  SplitPathLength :: int
  SplitMode :: SplitModeEnum
  Warnings :: "string list"

definition stencil_split_warning :: string where
  "stencil_split_warning =
     ''RequestData: SetSplitModeToBlock() is incompatible with GenerateStencilOutputOn().  Denying any splits along x-axis in order to avoid corrupt stencil!''"

definition vtkWarningMacro :: "string \<Rightarrow> split_state \<Rightarrow> split_state" where
  "vtkWarningMacro msg self = self\<lparr>Warnings := Warnings self @ [msg]\<rparr>"

definition deny_x_split :: "split_state \<Rightarrow> split_state" where
  \<comment> \<open>lines 3215-3225\<close>
  "deny_x_split self =
    (if GenerateStencilOutput self \<noteq> 0 \<and> SplitPathLength self = 3
     then (let self = (if SplitMode self = BLOCK
                       then vtkWarningMacro stencil_split_warning self else self)
           in self\<lparr>SplitPathLength := 2\<rparr>)
     else self)"

text \<open>\<^verbatim>\<open>RequestData\<close>: the guard, then the superclass's \<^verbatim>\<open>RequestData\<close>, which spawns the
  threads; \<open>super\<close> stands for it (and the interpolator's \<^verbatim>\<open>Initialize\<close>/\<^verbatim>\<open>ReleaseData\<close>
  around it, which leave these members alone).\<close>

definition RequestData :: "(split_state \<Rightarrow> int \<times> split_state) \<Rightarrow> split_state \<Rightarrow> int \<times> split_state" where
  "RequestData super self = super (deny_x_split self)"

definition split_example :: split_state where
  "split_example = \<lparr>GenerateStencilOutput = 1, SplitPathLength = 3, SplitMode = BLOCK,
     Warnings = []\<rparr>"

subsection \<open>Classifying the index matrix (lines 905-973, 1289-1303)\<close>

text \<open>A \<^verbatim>\<open>vtkMatrix4x4\<close> is read through \<^verbatim>\<open>GetElement(i, j)\<close>: row \<open>i\<close>, column \<open>j\<close>.\<close>

type_synonym vtkMatrix4x4 = "nat \<Rightarrow> nat \<Rightarrow> real"

definition matrix_of_rows :: "real list list \<Rightarrow> vtkMatrix4x4" where
  "matrix_of_rows rows i j = rows ! i ! j"

definition nonzeros_in_column :: "vtkMatrix4x4 \<Rightarrow> nat \<Rightarrow> nat" where
  \<comment> \<open>the inner loop of \<^verbatim>\<open>vtkIsPermutationMatrix\<close>: \<^verbatim>\<open>k\<close> after \<^verbatim>\<open>i = 0, 1, 2\<close>\<close>
  "nonzeros_in_column matrix j = length (filter (\<lambda>i. matrix i j \<noteq> 0) [0..<3])"

definition vtkIsPermutationMatrix :: "vtkMatrix4x4 \<Rightarrow> bool" where
  "vtkIsPermutationMatrix matrix =
    (if list_ex (\<lambda>i. matrix 3 i \<noteq> 0) [0..<3] then False
     else if matrix 3 3 \<noteq> 1 then False
     else if list_ex (\<lambda>j. nonzeros_in_column matrix j \<noteq> 1) [0..<3] then False
     else True)"

text \<open>\<^verbatim>\<open>vtkCanUseNearestNeighbor\<close> scans each row for its first non-zero element and
  hits \<^verbatim>\<open>assert(0)\<close> when a row has none. \<open>fraction\<close> stands for the fractional part that
  \<^verbatim>\<open>vtkInterpolationMath::Floor\<close> hands back.\<close>

datatype 'a asserted = AssertionFailed | Returned 'a

definition first_nonzero :: "vtkMatrix4x4 \<Rightarrow> nat \<Rightarrow> nat" where
  \<comment> \<open>\<^verbatim>\<open>for (j = 0; j < 3; j++) if (matrix->GetElement(i, j) != 0) break;\<close>\<close>
  "first_nonzero matrix i =
     (if matrix i 0 \<noteq> 0 then 0 else if matrix i 1 \<noteq> 0 then 1
      else if matrix i 2 \<noteq> 0 then 2 else 3)"

fun nearest_rows :: "(real \<Rightarrow> real) \<Rightarrow> vtkMatrix4x4 \<Rightarrow> int list \<Rightarrow> nat list \<Rightarrow> int asserted" where
  "nearest_rows fraction matrix outExt [] = Returned 1"
| "nearest_rows fraction matrix outExt (i # rest) =
    (let j = first_nonzero matrix i in
     if j \<ge> 3 then AssertionFailed
     else
       (let x = matrix i j;
            y = matrix i 3;
            (x, y) = (if outExt ! (2 * j) = outExt ! (2 * j + 1)
                      then (0, y + x * real_of_int (outExt ! (2 * i))) else (x, y))
        in if fraction x \<noteq> 0 \<or> fraction y \<noteq> 0 then Returned 0
           else nearest_rows fraction matrix outExt rest))"

definition vtkCanUseNearestNeighbor :: "(real \<Rightarrow> real) \<Rightarrow> vtkMatrix4x4 \<Rightarrow> int list \<Rightarrow> int asserted" where
  "vtkCanUseNearestNeighbor fraction matrix outExt = nearest_rows fraction matrix outExt [0..<3]"

text \<open>What \<^verbatim>\<open>RequestInformationBase\<close> reads when it decides on the fast path:
  \<open>HasOptimizedTransform\<close> is \<^verbatim>\<open>this->OptimizedTransform != nullptr\<close> (a residual nonlinear
  transform), \<open>IsSeparable\<close> the answer of \<^verbatim>\<open>interpolator->IsSeparable()\<close>.\<close>

record permute_inputs =
  Optimization :: int
  HasOptimizedTransform :: bool
  SlabSliceSpacingFraction :: real
  IsSeparable :: bool
  IndexMatrix :: vtkMatrix4x4

definition UsePermuteExecute :: "permute_inputs \<Rightarrow> int" where
  \<comment> \<open>lines 1291-1303\<close>
  "UsePermuteExecute self =
    (if Optimization self \<noteq> 0 then
       (if \<not> HasOptimizedTransform self \<and> SlabSliceSpacingFraction self = 1
            \<and> IsSeparable self \<and> vtkIsPermutationMatrix (IndexMatrix self)
        then 1 else 0)
     else 0)"

text \<open>Permutation+scale+translation as the specification words it: bottom row
  \<open>(0,0,0,1)\<close>, exactly one non-zero element in each row and in each column of the
  upper-left 3x3 block.\<close>

definition nonzeros_in_row :: "vtkMatrix4x4 \<Rightarrow> nat \<Rightarrow> nat" where
  "nonzeros_in_row matrix i = length (filter (\<lambda>j. matrix i j \<noteq> 0) [0..<3])"

definition spec_permutation_scale_translation :: "vtkMatrix4x4 \<Rightarrow> bool" where
  "spec_permutation_scale_translation matrix =
     (matrix 3 0 = 0 \<and> matrix 3 1 = 0 \<and> matrix 3 2 = 0 \<and> matrix 3 3 = 1
      \<and> list_all (\<lambda>i. nonzeros_in_row matrix i = 1) [0..<3]
      \<and> list_all (\<lambda>j. nonzeros_in_column matrix j = 1) [0..<3])"

definition spec_permute_selected :: "permute_inputs \<Rightarrow> bool" where
  "spec_permute_selected self =
     (Optimization self \<noteq> 0 \<and> \<not> HasOptimizedTransform self
      \<and> SlabSliceSpacingFraction self = 1 \<and> IsSeparable self
      \<and> spec_permutation_scale_translation (IndexMatrix self))"

text \<open>An index matrix whose three columns all have their single non-zero element in
  row 0: what \<^verbatim>\<open>GetIndexMatrix\<close> returns for identity geometry and these reslice axes.\<close>

definition collapsed_matrix :: vtkMatrix4x4 where
  "collapsed_matrix = matrix_of_rows [[1, 1, 1, 0], [0, 0, 0, 0], [0, 0, 0, 0], [0, 0, 0, 1]]"

definition collapsed_inputs :: permute_inputs where
  "collapsed_inputs = \<lparr>Optimization = 1, HasOptimizedTransform = False,
     SlabSliceSpacingFraction = 1, IsSeparable = True, IndexMatrix = collapsed_matrix\<rparr>"

subsection \<open>Scalar types, rounding and clamping (lines 1328-1489)\<close>



definition round_half_up :: "real \<Rightarrow> int" where
  \<comment> \<open>the rounding used at concrete inputs: \<^verbatim>\<open>vtkInterpolationMath::Round\<close> is
      \<open>floor (x + 0.5)\<close> up to a tolerance of \<open>2 ^ -17\<close>\<close>
  "round_half_up x = \<lfloor>x + 1 / 2\<rfloor>"





subsection \<open>Choosing the conversion function (lines 1538-1580, 2072-2075)\<close>













subsection \<open>The background pixel (lines 1837-1866)\<close>














subsection \<open>Slab compositors (lines 1583-1733)\<close>


















subsection \<open>The update-extent pre-pass (\<^verbatim>\<open>RequestUpdateExtent\<close>, lines 586-764)\<close>

definition VTK_INT_MAX :: int where "VTK_INT_MAX = 2147483647"
definition VTK_INT_MIN :: int where "VTK_INT_MIN = - VTK_INT_MAX - 1"

text \<open>An extent is the list \<open>[x0, x1, y0, y1, z0, z1]\<close>. Corner \<open>jj\<close> of the output
  extent (lines 647-649).\<close>

definition corner_indices :: "int list \<Rightarrow> nat \<Rightarrow> int \<times> int \<times> int" where
  "corner_indices outExt jj =
     (outExt ! (jj mod 2), outExt ! (2 + (jj div 2) mod 2), outExt ! (4 + (jj div 4) mod 2))"

text \<open>The corner mapped through the index matrix, built up along Z, Y and X as in the
  source, with the perspective division when the fourth coordinate is not 1
  (lines 651-675). The result is indexed by the coordinate.\<close>

definition corner_point :: "vtkMatrix4x4 \<Rightarrow> int \<times> int \<times> int \<Rightarrow> nat \<Rightarrow> real" where
  "corner_point matrix idx =
    (case idx of (idX, idY, idZ) \<Rightarrow>
      (let inPoint0 = (\<lambda>i. matrix i 3 + real_of_int idZ * matrix i 2);
           inPoint1 = (\<lambda>i. inPoint0 i + real_of_int idY * matrix i 1);
           point = (\<lambda>i. inPoint1 i + real_of_int idX * matrix i 0)
       in if point 3 \<noteq> 1
          then (let f = 1 / point 3 in (\<lambda>i. if i < 3 then point i * f else point i))
          else point))"

text \<open>One pass of the body of the loop over the axes (lines 679-709) for a coordinate
  \<open>p\<close>: \<open>(lo, hi)\<close> are \<^verbatim>\<open>inExt[2 * j]\<close> and \<^verbatim>\<open>inExt[2 * j + 1]\<close>. \<open>Floor\<close> returns the
  integer and the fraction of \<^verbatim>\<open>vtkInterpolationMath::Floor\<close>. A support size is not
  negative, so that C's \<^verbatim>\<open>(kernelSize + 1) / 2\<close> is \<open>div\<close> and \<^verbatim>\<open>kernelSize & 1\<close> the
  remainder modulo 2.\<close>

definition extend_axis ::
  "(real \<Rightarrow> int \<times> real) \<Rightarrow> (real \<Rightarrow> int) \<Rightarrow> int \<Rightarrow> real \<Rightarrow> int \<times> int \<Rightarrow> int \<times> int" where
  "extend_axis Floor Round kernelSize p ext =
    (case ext of (lo, hi) \<Rightarrow>
      (let extra = (kernelSize + 1) div 2 - 1 in
       if kernelSize mod 2 = 0 then
         (case Floor p of (k, f) \<Rightarrow>
           (let lo = (if k - extra < lo then k - extra else lo);
                k = k + (if f \<noteq> 0 then 1 else 0);
                hi = (if k + extra > hi then k + extra else hi)
            in (lo, hi)))
       else
         (let k = Round p;
              lo = (if k < lo then k - extra else lo);
              hi = (if k > hi then k + extra else hi)
          in (lo, hi))))"

definition visit_axis ::
  "(real \<Rightarrow> int \<times> real) \<Rightarrow> (real \<Rightarrow> int) \<Rightarrow> int list \<Rightarrow> (nat \<Rightarrow> real) \<Rightarrow> nat \<Rightarrow> int list \<Rightarrow> int list" where
  "visit_axis Floor Round supportSize point j inExt =
    (case extend_axis Floor Round (supportSize ! j) (point j) (inExt ! (2 * j), inExt ! (2 * j + 1))
     of (lo, hi) \<Rightarrow> inExt[2 * j := lo, 2 * j + 1 := hi])"

definition visit_corner ::
  "(real \<Rightarrow> int \<times> real) \<Rightarrow> (real \<Rightarrow> int) \<Rightarrow> int list \<Rightarrow> vtkMatrix4x4 \<Rightarrow> int list \<Rightarrow> nat
     \<Rightarrow> int list \<Rightarrow> int list" where
  "visit_corner Floor Round supportSize matrix outExt jj inExt =
     fold (visit_axis Floor Round supportSize (corner_point matrix (corner_indices outExt jj)))
       [0..<3] inExt"

definition slab_extent :: "int \<Rightarrow> int list \<Rightarrow> int list" where
  \<comment> \<open>lines 628-632\<close>
  "slab_extent slabSlices outExt =
    (if slabSlices > 1
     then outExt[4 := outExt ! 4 - (slabSlices + 1) div 2,
                 5 := outExt ! 5 + (slabSlices + 1) div 2]
     else outExt)"

definition unclipped_extent ::
  "(real \<Rightarrow> int \<times> real) \<Rightarrow> (real \<Rightarrow> int) \<Rightarrow> int \<Rightarrow> int list \<Rightarrow> vtkMatrix4x4 \<Rightarrow> int list \<Rightarrow> int list" where
  \<comment> \<open>\<^verbatim>\<open>inExt\<close> when the loop over the eight corners is left (line 711)\<close>
  "unclipped_extent Floor Round slabSlices supportSize matrix outExt =
     fold (visit_corner Floor Round supportSize matrix (slab_extent slabSlices outExt))
       [0..<8]
       [VTK_INT_MAX, VTK_INT_MIN, VTK_INT_MAX, VTK_INT_MIN, VTK_INT_MAX, VTK_INT_MIN]"





text \<open>The interval of claim C5 for an odd kernel size \<open>k\<close>: the union over the eight
  corners of \<open>[round p - (k - 1) / 2, round p + (k - 1) / 2]\<close> on axis \<open>j\<close>.\<close>

definition spec_odd_interval ::
  "(real \<Rightarrow> int) \<Rightarrow> int \<Rightarrow> vtkMatrix4x4 \<Rightarrow> int list \<Rightarrow> nat \<Rightarrow> int \<times> int" where
  "spec_odd_interval Round k matrix outExt j =
    (let ps = map (\<lambda>jj. Round (corner_point matrix (corner_indices outExt jj) j)) [0..<8]
     in (Min (set (map (\<lambda>r. r - (k - 1) div 2) ps)), Max (set (map (\<lambda>r. r + (k - 1) div 2) ps))))"

definition floor_with_fraction :: "real \<Rightarrow> int \<times> real" where
  "floor_with_fraction x = (\<lfloor>x\<rfloor>, x - real_of_int \<lfloor>x\<rfloor>)"

definition shifted_identity :: vtkMatrix4x4 where
  "shifted_identity =
     matrix_of_rows [[1, 0, 0, 1 / 4], [0, 1, 0, 0], [0, 0, 1, 0], [0, 0, 0, 1]]"

subsection \<open>Dispatch of a tile and the background fill (lines 1894-1925, 3243-3297)\<close>







definition identity_matrix :: vtkMatrix4x4 where
  "identity_matrix = matrix_of_rows [[1, 0, 0, 0], [0, 1, 0, 0], [0, 0, 1, 0], [0, 0, 0, 1]]"




subsection \<open>Output spacing (\<^verbatim>\<open>RequestInformation\<close>, lines 1043-1125 and 1152-1157)\<close>

text \<open>A 3x3 matrix is the array \<^verbatim>\<open>double[9]\<close>, element \<open>(i, j)\<close> at index \<open>3 * i + j\<close>.

  Modelled from the spec: \<^verbatim>\<open>vtkMatrix3x3\<close> is not part of this file; the specification
  lists "3x3 and 4x4 matrix algebra (multiply, invert, identity, multiply-point)".
  \<open>Multiply3x3 a b\<close> is the product \<open>a \<cdot> b\<close> that \<^verbatim>\<open>vtkMatrix3x3::Multiply3x3(a, b, c)\<close> stores
  in \<^verbatim>\<open>c\<close>, \<open>Invert3x3\<close> the inverse by the adjugate.\<close>

definition Multiply3x3 :: "real list \<Rightarrow> real list \<Rightarrow> real list" where
  "Multiply3x3 a b =
     map (\<lambda>n. a ! (3 * (n div 3)) * b ! (n mod 3)
              + a ! (3 * (n div 3) + 1) * b ! (3 + n mod 3)
              + a ! (3 * (n div 3) + 2) * b ! (6 + n mod 3)) [0..<9]"

definition Determinant3x3 :: "real list \<Rightarrow> real" where
  "Determinant3x3 a =
     a ! 0 * (a ! 4 * a ! 8 - a ! 5 * a ! 7) - a ! 1 * (a ! 3 * a ! 8 - a ! 5 * a ! 6)
       + a ! 2 * (a ! 3 * a ! 7 - a ! 4 * a ! 6)"

definition Invert3x3 :: "real list \<Rightarrow> real list" where
  "Invert3x3 a =
     map (\<lambda>x. x / Determinant3x3 a)
       [a ! 4 * a ! 8 - a ! 5 * a ! 7, a ! 2 * a ! 7 - a ! 1 * a ! 8, a ! 1 * a ! 5 - a ! 2 * a ! 4,
        a ! 5 * a ! 6 - a ! 3 * a ! 8, a ! 0 * a ! 8 - a ! 2 * a ! 6, a ! 2 * a ! 3 - a ! 0 * a ! 5,
        a ! 3 * a ! 7 - a ! 4 * a ! 6, a ! 1 * a ! 6 - a ! 0 * a ! 7, a ! 0 * a ! 4 - a ! 1 * a ! 3]"

text \<open>What \<^verbatim>\<open>RequestInformation\<close> reads for the output spacing. \<open>AxesData\<close> is
  \<^verbatim>\<open>ResliceAxes->GetData()\<close> (16 numbers, row by row), \<open>None\<close> when no reslice axes are set.\<close>

record spacing_inputs =
  TransformInputSampling :: int
  ComputeOutputSpacing :: int
  PassDirectionToOutput :: bool
  OutputSpacing :: "real list"
  OutputDirection :: "real list"
  AxesData :: "real list option"
  inSpacing :: "real list"
  inDirection :: "real list"

definition resliceRotation_of :: "real list \<Rightarrow> real list" where
  \<comment> \<open>lines 1075-1079\<close>
  "resliceRotation_of axesData =
     [axesData ! 0, axesData ! 1, axesData ! 2,
      axesData ! 4, axesData ! 5, axesData ! 6,
      axesData ! 8, axesData ! 9, axesData ! 10]"

definition outDirection_of :: "spacing_inputs \<Rightarrow> real list" where
  \<comment> \<open>lines 1043-1052\<close>
  "outDirection_of self =
     (if PassDirectionToOutput self then inDirection self else OutputDirection self)"

definition sampling_rotation :: "(real list \<Rightarrow> real list) \<Rightarrow> spacing_inputs \<Rightarrow> real list" where
  \<comment> \<open>lines 1068-1093; \<open>Invert\<close> stands for \<^verbatim>\<open>vtkMatrix3x3::Invert\<close>\<close>
  "sampling_rotation Invert self =
    (let rotation = outDirection_of self;
         rotation = (case AxesData self of
                       None \<Rightarrow> rotation
                     | Some axesData \<Rightarrow> Multiply3x3 (resliceRotation_of axesData) rotation);
         inInvDirection = Invert (inDirection self)
     in Multiply3x3 inInvDirection rotation)"

definition spacing_step :: "real list \<Rightarrow> real list \<Rightarrow> nat \<Rightarrow> nat \<Rightarrow> real \<times> real \<Rightarrow> real \<times> real" where
  \<comment> \<open>the body of the loop over \<open>j\<close> for the accumulators \<open>s\<close> and \<open>r\<close> (lines 1105-1109)\<close>
  "spacing_step rotation spacing i j acc =
    (case acc of (s, r) \<Rightarrow>
      (let tmp = rotation ! (3 * j + i) * rotation ! (3 * j + i)
       in (s + tmp * \<bar>spacing ! j\<bar>, r + tmp)))"

definition outSpacing :: "(real list \<Rightarrow> real list) \<Rightarrow> spacing_inputs \<Rightarrow> nat \<Rightarrow> real" where
  "outSpacing Invert self i =
    (let s = (if TransformInputSampling self \<noteq> 0
              then (case fold (spacing_step (sampling_rotation Invert self) (inSpacing self) i)
                           [0..<3] (0, 0)
                    of (s, r) \<Rightarrow>
                      (let s = s / r
                       in if ComputeOutputSpacing self = 0 then OutputSpacing self ! i else s))
              else inSpacing self ! i)
     in if ComputeOutputSpacing self = 0 then OutputSpacing self ! i else s)"

text \<open>The formula of the specification for a rotation \<open>R\<close>, and the two products: the
  one the claim names and the one with the factors in the order of the code.\<close>

definition spec_spacing :: "real list \<Rightarrow> real list \<Rightarrow> nat \<Rightarrow> real" where
  "spec_spacing R spacing i =
     (\<Sum>j = 0..<3. (R ! (3 * j + i))\<^sup>2 * \<bar>spacing ! j\<bar>) / (\<Sum>j = 0..<3. (R ! (3 * j + i))\<^sup>2)"

definition reslice_rotation :: "spacing_inputs \<Rightarrow> real list" where
  "reslice_rotation self =
     (case AxesData self of None \<Rightarrow> [1, 0, 0, 0, 1, 0, 0, 0, 1]
      | Some axesData \<Rightarrow> resliceRotation_of axesData)"

definition claimed_rotation :: "(real list \<Rightarrow> real list) \<Rightarrow> spacing_inputs \<Rightarrow> real list" where
  "claimed_rotation Invert self =
     Multiply3x3 (Multiply3x3 (Invert (inDirection self)) (outDirection_of self))
       (reslice_rotation self)"

definition code_rotation :: "(real list \<Rightarrow> real list) \<Rightarrow> spacing_inputs \<Rightarrow> real list" where
  "code_rotation Invert self =
     Multiply3x3 (Invert (inDirection self))
       (Multiply3x3 (reslice_rotation self) (outDirection_of self))"

text \<open>Input direction identity, output direction a quarter turn about Z, reslice axes a
  quarter turn about X, input spacing \<open>(1, 2, 3)\<close>.\<close>

definition quarter_turns :: spacing_inputs where
  "quarter_turns = \<lparr>TransformInputSampling = 1, ComputeOutputSpacing = 1,
     PassDirectionToOutput = False, OutputSpacing = [1, 1, 1],
     OutputDirection = [0, -1, 0, 1, 0, 0, 0, 0, 1],
     AxesData = Some [1, 0, 0, 0, 0, 0, -1, 0, 0, 1, 0, 0, 0, 0, 0, 1],
     inSpacing = [1, 2, 3], inDirection = [1, 0, 0, 0, 1, 0, 0, 0, 1]\<rparr>"

subsection \<open>Where the two execute paths take their slab samples (lines 2104-2171, 2749-2773, 2929-2946)\<close>

text \<open>The general path, \<^verbatim>\<open>vtkImageResliceExecute\<close>: the input position of slab sample
  \<open>sample\<close> of the output voxel \<open>(idX, idY, idZ)\<close>, before any residual transform, indexed
  by the coordinate.\<close>

definition general_sample_point ::
  "vtkMatrix4x4 \<Rightarrow> int \<Rightarrow> real \<Rightarrow> int \<times> int \<times> int \<Rightarrow> int \<Rightarrow> nat \<Rightarrow> real" where
  "general_sample_point newmat slabSlices slabSampleSpacing idx sample =
    (case idx of (idX, idY, idZ) \<Rightarrow>
      (let nsamples = (if slabSlices > 1 then slabSlices else 1);
           perspective = (newmat 3 0 \<noteq> 0 \<or> newmat 3 1 \<noteq> 0 \<or> newmat 3 2 \<noteq> 0 \<or> newmat 3 3 \<noteq> 1);
           inPoint0 = (\<lambda>i. newmat i 3 + real_of_int idZ * newmat i 2);
           inPoint1 = (\<lambda>i. inPoint0 i + real_of_int idY * newmat i 1);
           inPoint2 = (\<lambda>i. inPoint1 i + real_of_int idX * newmat i 0);
           inPoint = (if nsamples > 1
                      then (let s = real_of_int sample - (1 / 2) * real_of_int (nsamples - 1);
                                s = s * slabSampleSpacing
                            in (\<lambda>i. inPoint2 i + s * newmat i 2))
                      else inPoint2)
       in if perspective
          then (let f = 1 / inPoint 3 in (\<lambda>i. if i < 3 then inPoint i * f else inPoint i))
          else inPoint))"

text \<open>The permute path, \<^verbatim>\<open>vtkReslicePermuteExecute\<close>: the matrix handed to
  \<^verbatim>\<open>PrecomputeWeightsForExtent\<close> (lines 2749-2767).\<close>

definition permute_matrix :: "vtkMatrix4x4 \<Rightarrow> int \<Rightarrow> vtkMatrix4x4" where
  "permute_matrix matrix slabSlices =
    (let nsamples = (if slabSlices > 0 then slabSlices else 1) in
     if nsamples > 1
     then (\<lambda>i j. if i < 3 \<and> j = 3
                  then matrix i 3 - (1 / 2) * matrix i 2 * real_of_int nsamples
                  else matrix i j)
     else matrix)"

text \<open>Modelled from the spec: the interpolator is not part of this file. Its
  \<^verbatim>\<open>PrecomputeWeightsForExtent(matrix, extent)\<close> "produces per-axis tables covering the
  requested output extent", and \<^verbatim>\<open>InterpolateRow(weights, idX, idY, idZ, ...)\<close> evaluates
  the output voxel with that index from them: the kernel is placed at the input
  position that the matrix gives to the index.\<close>

definition table_point :: "vtkMatrix4x4 \<Rightarrow> int \<times> int \<times> int \<Rightarrow> nat \<Rightarrow> real" where
  "table_point newmat idx i =
    (case idx of (idX, idY, idZ) \<Rightarrow>
       newmat i 0 * real_of_int idX + newmat i 1 * real_of_int idY
         + newmat i 2 * real_of_int idZ + newmat i 3)"

text \<open>The input position of slab sample \<open>isample\<close> of the output voxel
  \<open>(idX, idY, idZ)\<close> on the permute path: row \<open>idZ1 = idZ + lowerSkip\<close>, advanced once per
  sample (lines 2929-2946).\<close>

definition permute_sample_point ::
  "vtkMatrix4x4 \<Rightarrow> int \<Rightarrow> int list \<Rightarrow> int \<times> int \<times> int \<Rightarrow> int \<Rightarrow> nat \<Rightarrow> real" where
  "permute_sample_point matrix slabSlices clipExt idx isample =
    (case idx of (idX, idY, idZ) \<Rightarrow>
      (let lowerSkip = clipExt ! 4 - idZ;
           lowerSkip = (if lowerSkip \<ge> 0 then lowerSkip else 0);
           idZ1 = idZ + lowerSkip
       in table_point (permute_matrix matrix slabSlices) (idX, idY, idZ1 + isample)))"

section \<open>Properties\<close>

lemma later_max: "later a b = max a b"
  by (auto simp: later_def max_def)

text \<open>
  Claim C8, as amended. \<^verbatim>\<open>GetMTime\<close> returns the maximum of the filter's own
  modification time and the modification times of the reslice transform (and of its
  internal matrix when the transform is homogeneous), of the reslice axes matrix and of
  the interpolator, whichever of these are set. The information input is not consulted.
\<close>

theorem GetMTime_is_max_of_consulted:
  "GetMTime self = Max (consulted_times self)"
proof -
  obtain s tr ax ip inf where self: "self = \<lparr>SuperMTime = s, ResliceTransform = tr,
      ResliceAxes = ax, Interpolator = ip, InformationInput = inf\<rparr>"
    by (cases self) auto
  show ?thesis
    unfolding self GetMTime_def consulted_times_def transform_times_def
    by (cases tr; cases ax; cases ip)
       (auto simp: later_max Let_def max.commute max.left_commute max.assoc)
qed

theorem GetMTime_is_max_of_consulted_witness:
  "GetMTime mtime_example = 9 \<and> Max (consulted_times mtime_example) = 9"
proof -
  have "GetMTime mtime_example = 9"
    by (simp add: GetMTime_def mtime_example_def later_def)
  then show ?thesis
    using GetMTime_is_max_of_consulted [of mtime_example] by simp
qed

text \<open>The claim as stated fails: an information input that is newer than everything
  else does not raise the reported time.\<close>

theorem GetMTime_ignores_information_input:
  "GetMTime mtime_info_example = 1 \<and> spec_effective_mtime mtime_info_example = 10"
  by (simp add: GetMTime_def mtime_info_example_def spec_effective_mtime_def
      consulted_times_def transform_times_def)

text \<open>
  Claim C9. Whenever \<^verbatim>\<open>GenerateStencilOutput\<close> is on and the split path length is 3 when
  \<^verbatim>\<open>RequestData\<close> starts, the superclass (which spawns the threads) runs on a state whose
  split path length is 2, and exactly when the split mode is \<^verbatim>\<open>BLOCK\<close> the warning has been
  appended to the log first; nothing else of the state changes.
\<close>

theorem RequestData_denies_x_split:
  assumes "GenerateStencilOutput self \<noteq> 0" and "SplitPathLength self = 3"
  shows "RequestData super self = super (deny_x_split self)
       \<and> SplitPathLength (deny_x_split self) = 2
       \<and> Warnings (deny_x_split self) =
           (if SplitMode self = BLOCK then Warnings self @ [stencil_split_warning]
            else Warnings self)
       \<and> SplitMode (deny_x_split self) = SplitMode self
       \<and> GenerateStencilOutput (deny_x_split self) = GenerateStencilOutput self"
  using assms by (simp add: RequestData_def deny_x_split_def vtkWarningMacro_def)

theorem RequestData_denies_x_split_witness:
  "GenerateStencilOutput split_example \<noteq> 0 \<and> SplitPathLength split_example = 3
   \<and> RequestData (\<lambda>s. (1, s)) split_example =
       (1, \<lparr>GenerateStencilOutput = 1, SplitPathLength = 2, SplitMode = BLOCK,
            Warnings = [stencil_split_warning]\<rparr>)"
proof -
  have h1: "GenerateStencilOutput split_example \<noteq> 0" and h2: "SplitPathLength split_example = 3"
    by (simp_all add: split_example_def)
  have "deny_x_split split_example =
      \<lparr>GenerateStencilOutput = 1, SplitPathLength = 2, SplitMode = BLOCK,
            Warnings = [stencil_split_warning]\<rparr>"
    by (simp add: deny_x_split_def split_example_def vtkWarningMacro_def)
  then show ?thesis
    using RequestData_denies_x_split [OF h1 h2, of "\<lambda>s. (1, s)"] h1 h2 by simp
qed

text \<open>
  Claim C4 (the code departs from it). \<^verbatim>\<open>vtkIsPermutationMatrix\<close> counts the non-zero
  elements of each column only. For the matrix with rows \<open>(1,1,1,0)\<close>, \<open>(0,0,0,0)\<close>,
  \<open>(0,0,0,0)\<close>, \<open>(0,0,0,1)\<close> the fast path is selected although row 0 has three non-zero
  elements and rows 1 and 2 none, and \<^verbatim>\<open>vtkCanUseNearestNeighbor\<close>, called next, reaches its
  \<^verbatim>\<open>assert(0)\<close> on row 1.
\<close>

theorem permute_selected_for_collapsed_matrix:
  "UsePermuteExecute collapsed_inputs = 1
   \<and> \<not> spec_permute_selected collapsed_inputs
   \<and> nonzeros_in_row collapsed_matrix 0 = 3
   \<and> nonzeros_in_row collapsed_matrix 1 = 0
   \<and> vtkCanUseNearestNeighbor (\<lambda>x. x - of_int \<lfloor>x\<rfloor>) collapsed_matrix [0, 1, 0, 1, 0, 1]
       = AssertionFailed"
  by (simp add: UsePermuteExecute_def collapsed_inputs_def collapsed_matrix_def
      vtkIsPermutationMatrix_def nonzeros_in_column_def nonzeros_in_row_def
      matrix_of_rows_def spec_permute_selected_def spec_permutation_scale_translation_def
      vtkCanUseNearestNeighbor_def first_nonzero_def upt_rec)




























lemma shifted_identity_nth: "shifted_identity i j = [[1, 0, 0, 1 / 4], [0, 1, 0, 0], [0, 0, 1, 0], [0, 0, 0, 1]] ! i ! j"
  by (simp add: shifted_identity_def matrix_of_rows_def)













lemma identity_matrix_nth:
  "identity_matrix i j = [[1, 0, 0, 0], [0, 1, 0, 0], [0, 0, 1, 0], [0, 0, 0, 1]] ! i ! j"
  by (simp add: identity_matrix_def matrix_of_rows_def)




text \<open>
  Claim C5 (the code departs from it). For kernel size 3, the index matrix that shifts X
  by 1/4 and the output extent \<open>[0, 1]\<close> on X, the corners round to 0 and 1 on X. The union
  of \<open>[-1, 1]\<close> and \<open>[0, 2]\<close> is \<open>[-1, 2]\<close>, but the odd-size branch compares the bare centre
  \<open>k\<close> with the bounds already widened by \<open>extra\<close>, so the upper bound stays at 1.
\<close>

theorem odd_kernel_extent_too_small:
  "unclipped_extent floor_with_fraction round_half_up 1 [3, 3, 3] shifted_identity
       [0, 1, 0, 0, 0, 0] = [-1, 1, -1, 1, -1, 1]
   \<and> spec_odd_interval round_half_up 3 shifted_identity [0, 1, 0, 0, 0, 0] 0 = (-1, 2)"
  by (simp add: unclipped_extent_def visit_corner_def visit_axis_def extend_axis_def
      corner_point_def corner_indices_def slab_extent_def shifted_identity_nth round_half_up_def
      VTK_INT_MAX_def VTK_INT_MIN_def upt_rec Let_def spec_odd_interval_def)

lemma Multiply3x3_eval:
  "Multiply3x3 [a0, a1, a2, a3, a4, a5, a6, a7, a8] [b0, b1, b2, b3, b4, b5, b6, b7, b8] =
     [a0 * b0 + a1 * b3 + a2 * b6, a0 * b1 + a1 * b4 + a2 * b7, a0 * b2 + a1 * b5 + a2 * b8,
      a3 * b0 + a4 * b3 + a5 * b6, a3 * b1 + a4 * b4 + a5 * b7, a3 * b2 + a4 * b5 + a5 * b8,
      a6 * b0 + a7 * b3 + a8 * b6, a6 * b1 + a7 * b4 + a8 * b7, a6 * b2 + a7 * b5 + a8 * b8]"
  by (simp add: Multiply3x3_def upt_rec)

lemma Multiply3x3_identity_left:
  assumes "length b = 9"
  shows "Multiply3x3 [1, 0, 0, 0, 1, 0, 0, 0, 1] b = b"
proof -
  obtain b0 b1 b2 b3 b4 b5 b6 b7 b8 where "b = [b0, b1, b2, b3, b4, b5, b6, b7, b8]"
    using assms by (auto simp: length_Suc_conv numeral_eq_Suc)
  then show ?thesis by (simp add: Multiply3x3_eval)
qed

lemma fold_spacing_step:
  "fold (spacing_step R spacing i) [0..<3] (0, 0) =
     (\<Sum>j = 0..<3. (R ! (3 * j + i))\<^sup>2 * \<bar>spacing ! j\<bar>, \<Sum>j = 0..<3. (R ! (3 * j + i))\<^sup>2)"
  by (simp add: spacing_step_def upt_rec Let_def power2_eq_square numeral_3_eq_3)

text \<open>
  Claim C3, as amended. When the output spacing is not user-fixed and
  \<^verbatim>\<open>TransformInputSampling\<close> is on, the derived output spacing of each output axis \<open>i\<close> is
  \<open>(\<Sum>j. r j * |input_spacing j|) / (\<Sum>j. r j)\<close> with \<open>r j = (R (j, i))\<^sup>2\<close>, where \<open>R\<close> is
  the product inverse input direction times reslice rotation times output direction, in
  this order (the reslice rotation is the upper-left 3x3 block of the reslice axes, the
  identity when none are set; the output direction has the length of a direction matrix).
\<close>

theorem outSpacing_formula:
  assumes "ComputeOutputSpacing self \<noteq> 0" and "TransformInputSampling self \<noteq> 0"
    and "length (outDirection_of self) = 9"
  shows "outSpacing Invert self i = spec_spacing (code_rotation Invert self) (inSpacing self) i"
proof -
  have rot: "sampling_rotation Invert self = code_rotation Invert self"
    using assms(3)
    by (cases "AxesData self")
       (simp_all add: sampling_rotation_def code_rotation_def reslice_rotation_def
          Multiply3x3_identity_left Let_def)
  show ?thesis
    using assms(1,2)
    by (simp add: outSpacing_def rot fold_spacing_step spec_spacing_def Let_def)
qed

lemma sum_upto_3: "(\<Sum>j = 0..<3. f j) = f 0 + f 1 + f 2" for f :: "nat \<Rightarrow> real"
  by (simp add: numeral_3_eq_3 numeral_2_eq_2)

lemma Invert3x3_identity: "Invert3x3 [1, 0, 0, 0, 1, 0, 0, 0, 1] = [1, 0, 0, 0, 1, 0, 0, 0, 1]"
  by (simp add: Invert3x3_def Determinant3x3_def)

lemma quarter_turns_code_rotation:
  "code_rotation Invert3x3 quarter_turns = [0, -1, 0, 0, 0, -1, 1, 0, 0]"
  by (simp add: code_rotation_def quarter_turns_def reslice_rotation_def resliceRotation_of_def
      outDirection_of_def Invert3x3_identity Multiply3x3_eval)

lemma quarter_turns_claimed_rotation:
  "claimed_rotation Invert3x3 quarter_turns = [0, 0, 1, 1, 0, 0, 0, 1, 0]"
  by (simp add: claimed_rotation_def quarter_turns_def reslice_rotation_def
      resliceRotation_of_def outDirection_of_def Invert3x3_identity Multiply3x3_eval)

lemma quarter_turns_claimed_spacing:
  "spec_spacing (claimed_rotation Invert3x3 quarter_turns) (inSpacing quarter_turns) 0 = 2"
  unfolding quarter_turns_claimed_rotation
  by (simp add: spec_spacing_def sum_upto_3 quarter_turns_def)

lemma quarter_turns_code_spacing:
  "spec_spacing (code_rotation Invert3x3 quarter_turns) (inSpacing quarter_turns) 0 = 3"
  unfolding quarter_turns_code_rotation
  by (simp add: spec_spacing_def sum_upto_3 quarter_turns_def)

lemma quarter_turns_sampling_rotation:
  "sampling_rotation Invert3x3 quarter_turns = [0, -1, 0, 0, 0, -1, 1, 0, 0]"
  by (simp add: sampling_rotation_def quarter_turns_def resliceRotation_of_def
      outDirection_of_def Invert3x3_identity Multiply3x3_eval)

lemma quarter_turns_outSpacing: "outSpacing Invert3x3 quarter_turns 0 = 3"
  unfolding outSpacing_def quarter_turns_sampling_rotation
  by (simp add: spacing_step_def upt_rec quarter_turns_def)

theorem outSpacing_formula_witness:
  "ComputeOutputSpacing quarter_turns \<noteq> 0 \<and> TransformInputSampling quarter_turns \<noteq> 0
   \<and> length (outDirection_of quarter_turns) = 9
   \<and> outSpacing Invert3x3 quarter_turns 0 = 3"
proof -
  have h1: "ComputeOutputSpacing quarter_turns \<noteq> 0"
    and h2: "TransformInputSampling quarter_turns \<noteq> 0"
    and h3: "length (outDirection_of quarter_turns) = 9"
    by (simp_all add: quarter_turns_def outDirection_of_def)
  show ?thesis
    using outSpacing_formula [OF h1 h2 h3, of Invert3x3 0] quarter_turns_code_spacing h1 h2 h3
    by simp
qed

text \<open>With the product in the order the claim names, the formula gives 2 for output
  axis 0 of this input; the code derives 3.\<close>

theorem outSpacing_not_claimed_order:
  "outSpacing Invert3x3 quarter_turns 0 = 3
   \<and> spec_spacing (claimed_rotation Invert3x3 quarter_turns) (inSpacing quarter_turns) 0 = 2"
  using quarter_turns_outSpacing quarter_turns_claimed_spacing by simp

lemma permute_point_is_general_point_shifted:
  assumes "matrix 3 0 = 0" "matrix 3 1 = 0" "matrix 3 2 = 0" "matrix 3 3 = 1"
    and "slabSlices > 1" and "clipExt ! 4 \<le> idZ" and "i < 3"
  shows "permute_sample_point matrix slabSlices clipExt (idX, idY, idZ) sample i =
         general_sample_point matrix slabSlices 1 (idX, idY, idZ) sample i - matrix i 2 / 2"
  using assms
  by (simp add: permute_sample_point_def general_sample_point_def permute_matrix_def
      table_point_def Let_def field_simps)

lemma permute_point_is_general_point_single:
  assumes "matrix 3 0 = 0" "matrix 3 1 = 0" "matrix 3 2 = 0" "matrix 3 3 = 1"
    and "slabSlices = 1" and "clipExt ! 4 \<le> idZ"
  shows "permute_sample_point matrix slabSlices clipExt (idX, idY, idZ) 0 i =
         general_sample_point matrix slabSlices 1 (idX, idY, idZ) 0 i"
  using assms
  by (simp add: permute_sample_point_def general_sample_point_def permute_matrix_def
      table_point_def Let_def algebra_simps)

text \<open>
  Claim C1 (the code departs from it). Identity index matrix, two slab slices, spacing
  fraction 1, output voxel \<open>(0, 0, 1)\<close>: the general path samples the input at
  \<open>z = 1/2\<close> and \<open>z = 3/2\<close>, the permute path at \<open>z = 0\<close> and \<open>z = 1\<close>. The two paths
  composite different samples, so their outputs differ on any input that varies along Z.
\<close>

theorem slab_sample_points_differ:
  "map (\<lambda>sample. general_sample_point identity_matrix 2 1 (0, 0, 1) sample 2) [0, 1]
     = [1 / 2, 3 / 2]
   \<and> map (\<lambda>isample. permute_sample_point identity_matrix 2 [0, 0, 0, 0, 0, 3] (0, 0, 1) isample 2)
       [0, 1] = [0, 1]
   \<and> vtkIsPermutationMatrix identity_matrix"
  by (simp add: general_sample_point_def permute_sample_point_def permute_matrix_def
      table_point_def identity_matrix_nth Let_def vtkIsPermutationMatrix_def
      nonzeros_in_column_def upt_rec)

theorem slab_sample_points_differ_witness:
  "general_sample_point identity_matrix 2 1 (0, 0, 1) 0 2 = 1 / 2
   \<and> permute_sample_point identity_matrix 2 [0, 0, 0, 0, 0, 3] (0, 0, 1) 0 2 = 0"
  using slab_sample_points_differ by simp

end
